theory Spec2Isabelle
  imports Complex_Main "HOL-Library.AList" "HOL-Library.Log_Nat"
begin

section \<open>JavaScript values and plain objects\<close>

text \<open>
  The progress tracker keeps its state in a plain JavaScript object and hands values to
  \<^verbatim>\<open>JSON.stringify\<close>, \<^verbatim>\<open>Boolean\<close> and the spread operator. The values
  that can reach it are modelled by \<open>jsval\<close>. \<open>JFunction\<close> stands for a function object
  (the members of \<^verbatim>\<open>Object.prototype\<close> are such values).
\<close>

datatype jsval =
    JUndefined
  | JNull
  | JBool bool
  | JNum int
  | JStr string
  | JFunction string
  | JArr "jsval list"
  | JObj "(string \<times> jsval) list"

text \<open>
  The own enumerable properties of a plain object, in the order in which
  \<^verbatim>\<open>Object.keys\<close> lists them: array-index keys in ascending numeric order first, the
  other keys in the order of their creation after them.
\<close>

type_synonym props = "(string \<times> jsval) list"

text \<open>\<^verbatim>\<open>Boolean(v)\<close>, which is also what \<^verbatim>\<open>!v\<close> and \<^verbatim>\<open>filter(Boolean)\<close> test.\<close>

fun truthy :: "jsval \<Rightarrow> bool" where
  "truthy JUndefined = False"
| "truthy JNull = False"
| "truthy (JBool b) = b"
| "truthy (JNum n) = (n \<noteq> 0)"
| "truthy (JStr s) = (s \<noteq> [])"
| "truthy (JFunction f) = True"
| "truthy (JArr vs) = True"
| "truthy (JObj ps) = True"

text \<open>\<^verbatim>\<open>typeof v\<close>.\<close>

fun typeof :: "jsval \<Rightarrow> string" where
  "typeof JUndefined = ''undefined''"
| "typeof JNull = ''object''"
| "typeof (JBool b) = ''boolean''"
| "typeof (JNum n) = ''number''"
| "typeof (JStr s) = ''string''"
| "typeof (JFunction f) = ''function''"
| "typeof (JArr vs) = ''object''"
| "typeof (JObj ps) = ''object''"

subsection \<open>Property keys\<close>

definition digits :: string where
  "digits = ''0123456789''"

text \<open>The decimal text of a non-negative integer, as \<^verbatim>\<open>String(n)\<close> prints it.\<close>

fun to_decimal :: "nat \<Rightarrow> string" where
  "to_decimal n =
     (if n < 10 then [digits ! n] else to_decimal (n div 10) @ [digits ! (n mod 10)])"

declare to_decimal.simps [simp del]

definition digit_val :: "char \<Rightarrow> int option" where
  "digit_val c = map_of (zip digits [0, 1, 2, 3, 4, 5, 6, 7, 8, 9]) c"

text \<open>
  A key is an array index when it is the canonical decimal text of an integer below
  \<open>2^32 - 1\<close>; \<open>array_index\<close> returns that integer.
\<close>

definition array_index :: "string \<Rightarrow> int option" where
  "array_index s =
     (if s = [] \<or> \<not> list_all (\<lambda>c. digit_val c \<noteq> None) s \<or> (hd s = CHR ''0'' \<and> s \<noteq> ''0'')
      then None
      else (let n = foldl (\<lambda>a c. 10 * a + the (digit_val c)) 0 s
            in if n < 4294967295 then Some n else None))"

subsection \<open>Reading, writing and deleting properties\<close>

text \<open>
  The names that every plain object inherits from \<^verbatim>\<open>Object.prototype\<close>. All of them
  are functions, except the accessor \<^verbatim>\<open>__proto__\<close>, whose getter returns the prototype
  object itself.
\<close>

definition object_prototype_names :: "string list" where
  "object_prototype_names =
     [''constructor'', ''hasOwnProperty'', ''isPrototypeOf'', ''propertyIsEnumerable'',
      ''toLocaleString'', ''toString'', ''valueOf'', ''__defineGetter__'',
      ''__defineSetter__'', ''__lookupGetter__'', ''__lookupSetter__'']"

definition object_prototype_get :: "string \<Rightarrow> jsval" where
  "object_prototype_get k =
     (if k = ''__proto__'' then JObj []
      else if k \<in> set object_prototype_names then JFunction k
      else JUndefined)"

text \<open>\<^verbatim>\<open>obj[k]\<close>: the own property if there is one, the inherited one otherwise.\<close>

definition get_prop :: "props \<Rightarrow> string \<Rightarrow> jsval" where
  "get_prop ps k = (case map_of ps k of Some v \<Rightarrow> v | None \<Rightarrow> object_prototype_get k)"

text \<open>
  A new own property takes its place in the key order: an array index goes before the
  first key that is a larger index or no index at all, any other key goes last.
\<close>

fun insert_index :: "int \<Rightarrow> string \<Rightarrow> jsval \<Rightarrow> props \<Rightarrow> props" where
  "insert_index n k v [] = [(k, v)]"
| "insert_index n k v (p # ps) =
     (case array_index (fst p) of
        Some m \<Rightarrow> if m \<le> n then p # insert_index n k v ps else (k, v) # p # ps
      | None \<Rightarrow> (k, v) # p # ps)"

definition insert_new :: "string \<Rightarrow> jsval \<Rightarrow> props \<Rightarrow> props" where
  "insert_new k v ps =
     (case array_index k of Some n \<Rightarrow> insert_index n k v ps | None \<Rightarrow> ps @ [(k, v)])"

text \<open>
  Defining an own data property (what an object literal and the spread operator do):
  an existing property keeps its place and takes the new value.
\<close>

definition define_prop :: "string \<Rightarrow> jsval \<Rightarrow> props \<Rightarrow> props" where
  "define_prop k v ps =
     (if k \<in> set (map fst ps) then AList.update k v ps else insert_new k v ps)"

text \<open>
  \<^verbatim>\<open>obj[k] = true\<close>. An own property is overwritten. Without an own property the
  prototype chain decides: \<^verbatim>\<open>__proto__\<close> is an accessor whose setter ignores a
  primitive value, so nothing is stored; every other name gets a new own property.
\<close>

definition assign_true :: "string \<Rightarrow> props \<Rightarrow> props" where
  "assign_true k ps =
     (if k \<in> set (map fst ps) then AList.update k (JBool True) ps
      else if k = ''__proto__'' then ps
      else insert_new k (JBool True) ps)"

text \<open>\<^verbatim>\<open>delete obj[k]\<close> removes the own property, if any.\<close>

definition delete_prop :: "string \<Rightarrow> props \<Rightarrow> props" where
  "delete_prop k ps = AList.delete k ps"

text \<open>\<^verbatim>\<open>Object.keys\<close> and \<^verbatim>\<open>Object.values\<close>.\<close>

definition object_keys :: "props \<Rightarrow> string list" where
  "object_keys ps = map fst ps"

definition object_values :: "props \<Rightarrow> jsval list" where
  "object_values ps = map snd ps"

text \<open>
  The own enumerable properties that \<^verbatim>\<open>{ ...v }\<close> copies: none for
  \<^verbatim>\<open>undefined\<close>, \<^verbatim>\<open>null\<close>, booleans, numbers and functions, the characters of
  a string and the elements of an array under their indices, the properties of an object.
\<close>

fun enumerate_from :: "nat \<Rightarrow> jsval list \<Rightarrow> props" where
  "enumerate_from i [] = []"
| "enumerate_from i (v # vs) = (to_decimal i, v) # enumerate_from (Suc i) vs"

fun own_enumerable :: "jsval \<Rightarrow> props" where
  "own_enumerable (JObj ps) = ps"
| "own_enumerable (JArr vs) = enumerate_from 0 vs"
| "own_enumerable (JStr s) = enumerate_from 0 (map (\<lambda>c. JStr [c]) s)"
| "own_enumerable v = []"

definition spread :: "jsval \<Rightarrow> props" where
  "spread v = foldl (\<lambda>acc p. define_prop (fst p) (snd p) acc) [] (own_enumerable v)"

text \<open>
  A property list is that of an object when no key occurs twice and the keys are in
  \<^verbatim>\<open>Object.keys\<close> order: \<open>key_before k k'\<close> says that \<open>k\<close> may stand before
  \<open>k'\<close>.
\<close>

definition key_before :: "string \<Rightarrow> string \<Rightarrow> bool" where
  "key_before k k' =
     (case array_index k of
        Some a \<Rightarrow> (case array_index k' of Some b \<Rightarrow> a \<le> b | None \<Rightarrow> True)
      | None \<Rightarrow> (case array_index k' of Some b \<Rightarrow> False | None \<Rightarrow> True))"

definition wf_props :: "props \<Rightarrow> bool" where
  "wf_props ps = (distinct (map fst ps) \<and> sorted_wrt key_before (map fst ps))"

section \<open>Browser local storage\<close>

text \<open>
  \<^verbatim>\<open>localStorage\<close> holds text under text keys. Access throws a
  \<^verbatim>\<open>SecurityError\<close> when storage is disabled, and a write throws a
  \<^verbatim>\<open>QuotaExceededError\<close> when the stored keys and values together would exceed
  the quota. \<open>ls_items\<close> lists the entries in the order in which the storage
  enumerates its keys.
\<close>

datatype exn = SecurityError | QuotaExceededError | SyntaxError | TypeError

record local_storage =
  ls_items :: "(string \<times> string) list"
  ls_enabled :: bool
  ls_quota :: nat

definition ls_size :: "(string \<times> string) list \<Rightarrow> nat" where
  "ls_size al = sum_list (map (\<lambda>p. length (fst p) + length (snd p)) al)"

definition getItem :: "local_storage \<Rightarrow> string \<Rightarrow> exn + string option" where
  "getItem ls k = (if ls_enabled ls then Inr (map_of (ls_items ls) k) else Inl SecurityError)"

definition setItem :: "local_storage \<Rightarrow> string \<Rightarrow> string \<Rightarrow> exn + local_storage" where
  "setItem ls k v =
     (if \<not> ls_enabled ls then Inl SecurityError
      else (let al = AList.update k v (ls_items ls)
            in if ls_quota ls < ls_size al then Inl QuotaExceededError
               else Inr (ls\<lparr>ls_items := al\<rparr>)))"

definition removeItem :: "local_storage \<Rightarrow> string \<Rightarrow> exn + local_storage" where
  "removeItem ls k =
     (if ls_enabled ls then Inr (ls\<lparr>ls_items := AList.delete k (ls_items ls)\<rparr>)
      else Inl SecurityError)"

text \<open>
  \<^verbatim>\<open>Object.keys(localStorage)\<close>. A stored key is an own property of the storage
  object only when no property of that name is found on its prototype chain: the members
  of \<^verbatim>\<open>Storage.prototype\<close> and of \<^verbatim>\<open>Object.prototype\<close> hide a stored key
  of their name, which \<^verbatim>\<open>getItem\<close>, \<^verbatim>\<open>setItem\<close> and \<^verbatim>\<open>removeItem\<close>
  still reach.
\<close>

definition storage_prototype_names :: "string list" where
  "storage_prototype_names =
     [''length'', ''key'', ''getItem'', ''setItem'', ''removeItem'', ''clear'', ''__proto__'']
     @ object_prototype_names"

definition storage_keys :: "local_storage \<Rightarrow> exn + string list" where
  "storage_keys ls =
     (if ls_enabled ls
      then Inr (filter (\<lambda>k. k \<notin> set storage_prototype_names) (map fst (ls_items ls)))
      else Inl SecurityError)"

section \<open>StorageManager\<close>

text \<open>
  \<^verbatim>\<open>JSON.stringify\<close> and \<^verbatim>\<open>JSON.parse\<close> belong to the platform. They are
  parameters of the model: \<open>stringify v\<close> is the text handed to
  \<^verbatim>\<open>setItem\<close>, or \<open>None\<close> when serialisation throws; \<open>parse s\<close> is the parsed
  value, or \<open>None\<close> when \<open>s\<close> is not JSON and parsing throws a
  \<^verbatim>\<open>SyntaxError\<close>.
\<close>

type_synonym stringifier = "jsval \<Rightarrow> string option"
type_synonym parser = "string \<Rightarrow> jsval option"

text \<open>\<^verbatim>\<open>_getKey\<close>: the template \<^verbatim>\<open>${this.namespace}_${key}\<close>.\<close>

definition getKey :: "string \<Rightarrow> string \<Rightarrow> string" where
  "getKey ns key = ns @ ''_'' @ key"

text \<open>
  Each method is a \<^verbatim>\<open>try\<close> block, modelled by a function into \<open>exn + _\<close>, and a
  \<^verbatim>\<open>catch\<close> that turns every exception into the fallback result.
\<close>

definition save_try :: "stringifier \<Rightarrow> string \<Rightarrow> string \<Rightarrow> jsval \<Rightarrow> local_storage
    \<Rightarrow> exn + local_storage" where
  "save_try J ns key data ls =
     (case J data of
        None \<Rightarrow> Inl TypeError
      | Some serialized \<Rightarrow> setItem ls (getKey ns key) serialized)"

definition save :: "stringifier \<Rightarrow> string \<Rightarrow> string \<Rightarrow> jsval \<Rightarrow> local_storage
    \<Rightarrow> bool \<times> local_storage" where
  "save J ns key data ls =
     (case save_try J ns key data ls of Inr ls' \<Rightarrow> (True, ls') | Inl e \<Rightarrow> (False, ls))"

definition load_try :: "parser \<Rightarrow> string \<Rightarrow> string \<Rightarrow> jsval \<Rightarrow> local_storage
    \<Rightarrow> exn + jsval" where
  "load_try P ns key defaultValue ls =
     (case getItem ls (getKey ns key) of
        Inl e \<Rightarrow> Inl e
      | Inr None \<Rightarrow> Inr defaultValue
      | Inr (Some serialized) \<Rightarrow>
          (case P serialized of None \<Rightarrow> Inl SyntaxError | Some v \<Rightarrow> Inr v))"

text \<open>
  The parameter \<^verbatim>\<open>defaultValue = null\<close> of \<^verbatim>\<open>load\<close>: an argument that is
  omitted or \<^verbatim>\<open>undefined\<close> gives the parameter the value \<^verbatim>\<open>null\<close>.
\<close>

definition default_parameter :: "jsval \<Rightarrow> jsval" where
  "default_parameter arg = (if arg = JUndefined then JNull else arg)"

definition load :: "parser \<Rightarrow> string \<Rightarrow> string \<Rightarrow> jsval \<Rightarrow> local_storage \<Rightarrow> jsval" where
  "load P ns key arg ls =
     (let defaultValue = default_parameter arg
      in case load_try P ns key defaultValue ls of Inr v \<Rightarrow> v | Inl e \<Rightarrow> defaultValue)"

definition remove_try :: "string \<Rightarrow> string \<Rightarrow> local_storage \<Rightarrow> exn + local_storage" where
  "remove_try ns key ls = removeItem ls (getKey ns key)"

definition remove :: "string \<Rightarrow> string \<Rightarrow> local_storage \<Rightarrow> bool \<times> local_storage" where
  "remove ns key ls =
     (case remove_try ns key ls of Inr ls' \<Rightarrow> (True, ls') | Inl e \<Rightarrow> (False, ls))"

text \<open>\<^verbatim>\<open>key.startsWith(prefix)\<close>.\<close>

definition startsWith :: "string \<Rightarrow> string \<Rightarrow> bool" where
  "startsWith s pre = (take (length pre) s = pre)"

text \<open>The \<^verbatim>\<open>forEach\<close> of \<^verbatim>\<open>clear\<close>: remove the keys one by one, stopping at the first exception.\<close>

fun remove_each :: "local_storage \<Rightarrow> string list \<Rightarrow> exn + local_storage" where
  "remove_each ls [] = Inr ls"
| "remove_each ls (k # ks) =
     (case removeItem ls k of Inl e \<Rightarrow> Inl e | Inr ls' \<Rightarrow> remove_each ls' ks)"

definition clear_try :: "string \<Rightarrow> local_storage \<Rightarrow> exn + local_storage" where
  "clear_try ns ls =
     (case storage_keys ls of
        Inl e \<Rightarrow> Inl e
      | Inr keys \<Rightarrow> remove_each ls (filter (\<lambda>key. startsWith key (ns @ ''_'')) keys))"

definition clear :: "string \<Rightarrow> local_storage \<Rightarrow> bool \<times> local_storage" where
  "clear ns ls =
     (case clear_try ns ls of Inr ls' \<Rightarrow> (True, ls') | Inl e \<Rightarrow> (False, ls))"

section \<open>Number arithmetic\<close>

text \<open>
  JavaScript numbers are IEEE 754 binary64 values, and \<^verbatim>\<open>/\<close> and \<^verbatim>\<open>*\<close> return
  the exact result rounded to the nearest such value, ties to the even significand. A
  finite number is modelled by the rational it denotes. \<open>to_double\<close> rounds a rational to
  53 significant bits; it is the rounding of binary64 for every number whose magnitude is
  in the normal range, between \<open>2^-1022\<close> and \<open>2^1024\<close>. The counts the tracker
  divides are array lengths, below \<open>2^32\<close>, so every number it computes is zero or lies
  between \<open>2^-32\<close> and \<open>2^39\<close>.
\<close>

definition round_half_even :: "rat \<Rightarrow> int" where
  "round_half_even x =
     (let f = \<lfloor>x\<rfloor>; r = x - of_int f
      in if r < 1 / 2 then f else if 1 / 2 < r then f + 1 else if even f then f else f + 1)"

text \<open>The binary exponent of a positive rational: the \<open>e\<close> with \<open>2^e \<le> x < 2^(e+1)\<close>.\<close>

definition binade :: "rat \<Rightarrow> int" where
  "binade x =
     (case quotient_of x of
        (a, b) \<Rightarrow> (let k = bitlen a - bitlen b in if 2 powi k \<le> x then k else k - 1))"

definition to_double :: "rat \<Rightarrow> rat" where
  "to_double x =
     (if x = 0 then 0
      else if x < 0 then - (let u = 2 powi (binade (- x) - 52)
                            in of_int (round_half_even (- x / u)) * u)
      else (let u = 2 powi (binade x - 52) in of_int (round_half_even (x / u)) * u))"

definition js_div :: "rat \<Rightarrow> rat \<Rightarrow> rat" where
  "js_div a b = to_double (a / b)"

definition js_mul :: "rat \<Rightarrow> rat \<Rightarrow> rat" where
  "js_mul a b = to_double (a * b)"

text \<open>\<^verbatim>\<open>Math.round\<close>: the nearest integer, a tie going up.\<close>

definition math_round :: "rat \<Rightarrow> int" where
  "math_round x = \<lfloor>x + 1 / 2\<rfloor>"

section \<open>ProgressTracker\<close>

text \<open>
  The derived summary, the dispatched events, and the state the tracker works on: its
  own \<^verbatim>\<open>progress\<close> object, the browser storage, and the part of the page it reads and
  writes. \<open>nav_items\<close> is the number of elements that match the navigation item
  selector. \<open>querySelector\<close> is what \<^verbatim>\<open>DOMUtils.$\<close> answers for a selector on this
  page: the index of the first matching element, or \<open>None\<close> when no element matches or
  the selector is not valid (the exception of \<^verbatim>\<open>document.querySelector\<close> is caught
  there). \<open>markers\<close> holds, for each element of the page, whether it has the
  \<^verbatim>\<open>completed\<close> class. \<open>bar\<close> is the percentage the progress bar shows, \<open>None\<close>
  while the tracker has no progress container.
\<close>

record summary =
  totalSteps :: nat
  completedSteps :: nat
  percentage :: int
  completedStepIds :: "string list"

record event =
  ev_type :: string
  ev_detail :: props
  ev_summary :: summary

record tracker =
  progress :: props
  storage :: local_storage
  nav_items :: nat
  querySelector :: "string \<Rightarrow> nat option"
  markers :: "bool list"
  bar :: "int option"
  events :: "event list"

text \<open>The default \<^verbatim>\<open>storageKey\<close> option and the namespace of the tracker's StorageManager.\<close>

definition storageKey :: string where
  "storageKey = ''progress''"

definition namespace :: string where
  "namespace = ''mcp''"

definition loadProgress :: "parser \<Rightarrow> tracker \<Rightarrow> jsval" where
  "loadProgress P w = load P namespace storageKey (JObj []) (storage w)"

definition saveProgress :: "stringifier \<Rightarrow> tracker \<Rightarrow> bool \<times> tracker" where
  "saveProgress J w =
     (case save J namespace storageKey (JObj (progress w)) (storage w) of
        (saved, ls) \<Rightarrow> (saved, w\<lparr>storage := ls\<rparr>))"

definition isStepCompleted :: "tracker \<Rightarrow> string \<Rightarrow> bool" where
  "isStepCompleted w stepId = truthy (get_prop (progress w) stepId)"

definition getTotalSteps :: "tracker \<Rightarrow> nat" where
  "getTotalSteps w = nav_items w"

definition getCompletedStepsCount :: "tracker \<Rightarrow> nat" where
  "getCompletedStepsCount w = length (filter truthy (object_values (progress w)))"

definition getCompletionPercentage :: "tracker \<Rightarrow> int" where
  "getCompletionPercentage w =
     (let total = getTotalSteps w; completed = getCompletedStepsCount w
      in if 0 < total
         then math_round (js_mul (js_div (of_nat completed) (of_nat total)) 100)
         else 0)"

definition getProgressSummary :: "tracker \<Rightarrow> summary" where
  "getProgressSummary w =
     \<lparr>totalSteps = getTotalSteps w,
      completedSteps = getCompletedStepsCount w,
      percentage = getCompletionPercentage w,
      completedStepIds =
        filter (\<lambda>stepId. truthy (get_prop (progress w) stepId)) (object_keys (progress w))\<rparr>"

text \<open>
  \<^verbatim>\<open>updateStepUI\<close> builds the selector \<^verbatim>\<open>[data-step="${stepId}"]\<close> from the
  step id as it is, without escaping (\<open>CHR 0x22\<close> is the double quote). The element the
  page answers with gets or loses the \<^verbatim>\<open>completed\<close> class; without an answer
  nothing happens.
\<close>

definition step_selector :: "string \<Rightarrow> string" where
  "step_selector stepId = ''[data-step='' @ [CHR 0x22] @ stepId @ [CHR 0x22] @ '']''"

definition updateStepUI :: "string \<Rightarrow> tracker \<Rightarrow> tracker" where
  "updateStepUI stepId w =
     (case querySelector w (step_selector stepId) of
        None \<Rightarrow> w
      | Some i \<Rightarrow>
          if i < length (markers w)
          then w\<lparr>markers := (markers w)[i := isStepCompleted w stepId]\<rparr>
          else w)"

definition updateProgressBar :: "tracker \<Rightarrow> tracker" where
  "updateProgressBar w =
     (case bar w of None \<Rightarrow> w | Some shown \<Rightarrow> w\<lparr>bar := Some (getCompletionPercentage w)\<rparr>)"

definition updateUI :: "tracker \<Rightarrow> tracker" where
  "updateUI w =
     updateProgressBar (foldl (\<lambda>w' stepId. updateStepUI stepId w') w (object_keys (progress w)))"

definition dispatchProgressEvent :: "string \<Rightarrow> props \<Rightarrow> tracker \<Rightarrow> tracker" where
  "dispatchProgressEvent eventType detail w =
     w\<lparr>events := events w @
        [\<lparr>ev_type = ''progress:'' @ eventType, ev_detail = detail,
          ev_summary = getProgressSummary w\<rparr>]\<rparr>"

text \<open>
  A step id is text, or absent (\<open>None\<close>: \<^verbatim>\<open>undefined\<close> or \<^verbatim>\<open>null\<close>).
  \<open>missing\<close> is the test \<^verbatim>\<open>!stepId\<close>.
\<close>

definition missing :: "string option \<Rightarrow> bool" where
  "missing stepId = (case stepId of None \<Rightarrow> True | Some s \<Rightarrow> s = [])"

definition markStepCompleted :: "stringifier \<Rightarrow> string option \<Rightarrow> tracker \<Rightarrow> bool \<times> tracker" where
  "markStepCompleted J stepId w =
     (if missing stepId then (False, w)
      else (let s = the stepId;
                w1 = w\<lparr>progress := assign_true s (progress w)\<rparr>
            in case saveProgress J w1 of
                 (saved, w2) \<Rightarrow>
                   if saved
                   then (saved, dispatchProgressEvent ''step-completed'' [(''stepId'', JStr s)]
                                  (updateProgressBar (updateStepUI s w2)))
                   else (saved, w2)))"

definition markStepIncomplete :: "stringifier \<Rightarrow> string option \<Rightarrow> tracker \<Rightarrow> bool \<times> tracker" where
  "markStepIncomplete J stepId w =
     (if missing stepId then (False, w)
      else (let s = the stepId;
                w1 = w\<lparr>progress := delete_prop s (progress w)\<rparr>
            in case saveProgress J w1 of
                 (saved, w2) \<Rightarrow>
                   if saved
                   then (saved, dispatchProgressEvent ''step-incompleted'' [(''stepId'', JStr s)]
                                  (updateProgressBar (updateStepUI s w2)))
                   else (saved, w2)))"

definition resetProgress :: "stringifier \<Rightarrow> tracker \<Rightarrow> bool \<times> tracker" where
  "resetProgress J w =
     (case saveProgress J (w\<lparr>progress := []\<rparr>) of
        (saved, w2) \<Rightarrow>
          if saved then (saved, dispatchProgressEvent ''progress-reset'' [] (updateUI w2))
          else (saved, w2))"

text \<open>
  \<^verbatim>\<open>exportProgress\<close> returns an object with a copy of the progress object, the
  summary and the time of the call; \<open>now\<close> is the text of the clock.
\<close>

definition summary_val :: "summary \<Rightarrow> jsval" where
  "summary_val s =
     JObj [(''totalSteps'', JNum (int (totalSteps s))),
           (''completedSteps'', JNum (int (completedSteps s))),
           (''percentage'', JNum (percentage s)),
           (''completedStepIds'', JArr (map JStr (completedStepIds s)))]"

definition exportProgress :: "string \<Rightarrow> tracker \<Rightarrow> jsval" where
  "exportProgress now w =
     JObj [(''progress'', JObj (spread (JObj (progress w)))),
           (''summary'', summary_val (getProgressSummary w)),
           (''timestamp'', JStr now)]"

text \<open>
  \<^verbatim>\<open>data.progress\<close>, for the values that pass the guard of \<^verbatim>\<open>importProgress\<close>:
  a property of an object, own or inherited; an array has no such member.
\<close>

fun data_progress :: "jsval \<Rightarrow> jsval" where
  "data_progress (JObj ps) = get_prop ps ''progress''"
| "data_progress v = JUndefined"

text \<open>
  In \<^verbatim>\<open>{ ...data.progress } || {}\<close> the object literal is always truthy, so the
  right operand is never taken.
\<close>

definition importProgress :: "stringifier \<Rightarrow> jsval \<Rightarrow> tracker \<Rightarrow> bool \<times> tracker" where
  "importProgress J data w =
     (if \<not> truthy data \<or> typeof data \<noteq> ''object'' then (False, w)
      else (let w1 = w\<lparr>progress := spread (data_progress data)\<rparr>
            in case saveProgress J w1 of
                 (saved, w2) \<Rightarrow>
                   if saved
                   then (saved, dispatchProgressEvent ''progress-imported'' [(''data'', data)]
                                  (updateUI w2))
                   else (saved, w2)))"

section \<open>Properties stated by the specification\<close>

text \<open>
  A summary is consistent with a progress object when its count is the number of truthy
  entries, its list of ids is the list of the keys of the truthy entries, in order, and
  the count is the length of that list.
\<close>

definition summary_consistent :: "props \<Rightarrow> summary \<Rightarrow> bool" where
  "summary_consistent ps s =
     (completedSteps s = length (filter (\<lambda>p. truthy (snd p)) ps) \<and>
      completedStepIds s = map fst (filter (\<lambda>p. truthy (snd p)) ps) \<and>
      completedSteps s = length (completedStepIds s))"

text \<open>
  The percentage as the specification states it, \<^verbatim>\<open>round(100 * completedSteps /
  totalSteps)\<close>, in exact arithmetic.
\<close>

definition spec_percentage :: "nat \<Rightarrow> nat \<Rightarrow> int" where
  "spec_percentage c t = math_round (100 * of_nat c / of_nat t)"

section \<open>Rejected step ids\<close>

text \<open>
  C4. \<^verbatim>\<open>markStepCompleted\<close> of an absent or empty step id returns false and changes
  nothing: the progress object, the storage, the page and the list of dispatched events
  are what they were.
\<close>

theorem markStepCompleted_missing:
  "markStepCompleted J None w = (False, w) \<and> markStepCompleted J (Some '''') w = (False, w)"
  by (simp add: markStepCompleted_def missing_def)

section \<open>StorageManager: load and clear\<close>

text \<open>
  C8, as the code has it. \<^verbatim>\<open>load\<close> returns its default value when storage is unavailable, when nothing
  is stored under the key, and when the stored text does not parse; text that parses is
  returned as the parsed value. Every exception of the \<^verbatim>\<open>try\<close> block ends in the
  default value, so none reaches the caller. The default value is the second argument,
  and \<^verbatim>\<open>null\<close> when that argument is omitted or \<^verbatim>\<open>undefined\<close>.
\<close>

theorem load_default:
  "(\<not> ls_enabled ls \<longrightarrow> load P ns key d ls = default_parameter d) \<and>
   (ls_enabled ls \<and> map_of (ls_items ls) (getKey ns key) = None
      \<longrightarrow> load P ns key d ls = default_parameter d) \<and>
   (ls_enabled ls \<and> map_of (ls_items ls) (getKey ns key) = Some s \<and> P s = None
      \<longrightarrow> load P ns key d ls = default_parameter d) \<and>
   (ls_enabled ls \<and> map_of (ls_items ls) (getKey ns key) = Some s \<and> P s = Some v
      \<longrightarrow> load P ns key d ls = v) \<and>
   (load_try P ns key (default_parameter d) ls = Inl e
      \<longrightarrow> load P ns key d ls = default_parameter d) \<and>
   (d \<noteq> JUndefined \<longrightarrow> default_parameter d = d) \<and>
   default_parameter JUndefined = JNull"
  by (simp add: load_def load_try_def getItem_def default_parameter_def)

theorem load_default_witness:
  "load (\<lambda>s. None) ''mcp'' ''progress'' (JObj [])
     \<lparr>ls_items = [(''mcp_progress'', ''{oops'')], ls_enabled = True, ls_quota = 100\<rparr> = JObj [] \<and>
   load (\<lambda>s. None) ''mcp'' ''progress'' (JObj [])
     \<lparr>ls_items = [], ls_enabled = True, ls_quota = 100\<rparr> = JObj [] \<and>
   load (\<lambda>s. Some JNull) ''mcp'' ''progress'' (JObj [])
     \<lparr>ls_items = [(''mcp_progress'', ''null'')], ls_enabled = False, ls_quota = 100\<rparr> = JObj [] \<and>
   load (\<lambda>s. None) ''theme'' ''preference'' JUndefined
     \<lparr>ls_items = [], ls_enabled = True, ls_quota = 100\<rparr> = JNull"
  using load_default [of "\<lparr>ls_items = [(''mcp_progress'', ''{oops'')], ls_enabled = True, ls_quota = 100\<rparr>"
      "\<lambda>s. None" "''mcp''" "''progress''" "JObj []" "''{oops''"]
    load_default [of "\<lparr>ls_items = [], ls_enabled = True, ls_quota = 100\<rparr>"
      "\<lambda>s. None" "''mcp''" "''progress''" "JObj []"]
    load_default [of "\<lparr>ls_items = [(''mcp_progress'', ''null'')], ls_enabled = False, ls_quota = 100\<rparr>"
      "\<lambda>s. Some JNull" "''mcp''" "''progress''" "JObj []"]
    load_default [of "\<lparr>ls_items = [], ls_enabled = True, ls_quota = 100\<rparr>"
      "\<lambda>s. None" "''theme''" "''preference''" JUndefined]
  by (simp add: getKey_def)

text \<open>
  A call without a default, or with \<^verbatim>\<open>undefined\<close> for it, returns \<^verbatim>\<open>null\<close> and
  not \<^verbatim>\<open>undefined\<close> when nothing is stored under the key.
\<close>

theorem load_default_counterexample:
  "load (\<lambda>s. None) ''theme'' ''preference'' JUndefined
     \<lparr>ls_items = [], ls_enabled = True, ls_quota = 100\<rparr> = JNull \<and>
   load (\<lambda>s. None) ''theme'' ''preference'' JUndefined
     \<lparr>ls_items = [], ls_enabled = True, ls_quota = 100\<rparr> \<noteq> JUndefined"
  by (simp add: load_def load_try_def getItem_def default_parameter_def)

lemma filter_delete:
  "filter Q (AList.delete k al) = filter (\<lambda>p. fst p \<noteq> k \<and> Q p) al"
  by (induction al) auto

lemma remove_each_enabled:
  "ls_enabled ls \<Longrightarrow>
     remove_each ls ks = Inr (ls\<lparr>ls_items := filter (\<lambda>p. fst p \<notin> set ks) (ls_items ls)\<rparr>)"
proof (induction ks arbitrary: ls)
  case Nil
  then show ?case by simp
next
  case (Cons k ks)
  have "filter (\<lambda>p. fst p \<notin> set ks) (AList.delete k (ls_items ls))
      = filter (\<lambda>p. fst p \<notin> set (k # ks)) (ls_items ls)"
    by (simp add: filter_delete)
  with Cons show ?case
    by (simp add: removeItem_def)
qed

text \<open>
  What \<^verbatim>\<open>clear\<close> does: on available storage it returns true and removes the entries
  whose key starts with the namespace prefix and is listed by
  \<^verbatim>\<open>Object.keys(localStorage)\<close>; every other entry keeps its value and its place. On
  unavailable storage it returns false and the storage is what it was.
\<close>

lemma clear_eq:
  "clear ns ls =
     (if ls_enabled ls
      then (True, ls\<lparr>ls_items :=
              filter (\<lambda>p. \<not> (startsWith (fst p) (ns @ ''_'') \<and>
                              fst p \<notin> set storage_prototype_names)) (ls_items ls)\<rparr>)
      else (False, ls))"
proof -
  have "filter (\<lambda>p. fst p \<notin> set (filter (\<lambda>key. startsWith key (ns @ ''_''))
            (filter (\<lambda>k. k \<notin> set storage_prototype_names) (map fst (ls_items ls)))))
          (ls_items ls)
      = filter (\<lambda>p. \<not> (startsWith (fst p) (ns @ ''_'') \<and>
                        fst p \<notin> set storage_prototype_names)) (ls_items ls)"
    by (rule filter_cong) auto
  then show ?thesis
    by (simp add: clear_def clear_try_def storage_keys_def remove_each_enabled
        del: set_filter set_map filter_filter)
qed

text \<open>
  No name on the prototype chain of the storage object starts with \<open>mcp_\<close> or
  \<open>theme_\<close>: for the two namespaces of this repository \<^verbatim>\<open>clear\<close> removes exactly the keys
  under the prefix.
\<close>

lemma clear_unshadowed:
  assumes "list_all (\<lambda>name. \<not> startsWith name (ns @ ''_'')) storage_prototype_names"
  shows "clear ns ls =
     (if ls_enabled ls
      then (True, ls\<lparr>ls_items := filter (\<lambda>p. \<not> startsWith (fst p) (ns @ ''_'')) (ls_items ls)\<rparr>)
      else (False, ls))"
proof -
  have "filter (\<lambda>p. \<not> (startsWith (fst p) (ns @ ''_'') \<and>
                        fst p \<notin> set storage_prototype_names)) (ls_items ls)
      = filter (\<lambda>p. \<not> startsWith (fst p) (ns @ ''_'')) (ls_items ls)"
    using assms by (intro filter_cong) (auto simp: list_all_iff)
  then show ?thesis
    by (simp add: clear_eq)
qed

lemma clear_mcp:
  "clear ''mcp'' ls =
     (if ls_enabled ls
      then (True, ls\<lparr>ls_items := filter (\<lambda>p. \<not> startsWith (fst p) ''mcp_'') (ls_items ls)\<rparr>)
      else (False, ls))"
  using clear_unshadowed [of "''mcp''" ls]
  by (simp add: storage_prototype_names_def object_prototype_names_def startsWith_def)

lemma clear_theme:
  "clear ''theme'' ls =
     (if ls_enabled ls
      then (True, ls\<lparr>ls_items := filter (\<lambda>p. \<not> startsWith (fst p) ''theme_'') (ls_items ls)\<rparr>)
      else (False, ls))"
  using clear_unshadowed [of "''theme''" ls]
  by (simp add: storage_prototype_names_def object_prototype_names_def startsWith_def)

text \<open>
  C9 at the empty namespace, whose prefix is \<open>_\<close>: the stored key \<open>__proto__\<close> starts with
  the prefix, but \<^verbatim>\<open>Object.keys(localStorage)\<close> does not list it, so \<^verbatim>\<open>clear\<close>
  returns true and leaves it in the storage, where no key under the prefix should remain.
\<close>

theorem clear_keeps_shadowed_key:
  "startsWith ''__proto__'' ([] @ ''_'') \<and>
   clear []
     \<lparr>ls_items = [(''__proto__'', ''dark''), (''_preference'', ''light''), (''mcp_progress'', ''{}'')],
      ls_enabled = True, ls_quota = 100\<rparr>
    = (True, \<lparr>ls_items = [(''__proto__'', ''dark''), (''mcp_progress'', ''{}'')],
              ls_enabled = True, ls_quota = 100\<rparr>)"
  by (simp add: clear_eq startsWith_def storage_prototype_names_def object_prototype_names_def)

section \<open>Facts about the model\<close>

subsection \<open>Property lists\<close>

lemma set_insert_index: "set (insert_index n k v ps) = insert (k, v) (set ps)"
  by (induction ps) (auto split: option.splits)

lemma set_insert_new: "set (insert_new k v ps) = insert (k, v) (set ps)"
  by (simp add: insert_new_def set_insert_index split: option.splits)

lemma distinct_insert_index:
  "k \<notin> fst ` set ps \<Longrightarrow> distinct (map fst ps) \<Longrightarrow> distinct (map fst (insert_index n k v ps))"
  by (induction ps) (auto simp: set_insert_index split: option.splits)

lemma distinct_insert_new:
  "k \<notin> fst ` set ps \<Longrightarrow> distinct (map fst ps) \<Longrightarrow> distinct (map fst (insert_new k v ps))"
  by (simp add: insert_new_def distinct_insert_index split: option.splits)

lemma map_of_insert_index:
  "k \<notin> fst ` set ps \<Longrightarrow>
     map_of (insert_index n k v ps) k' = (if k' = k then Some v else map_of ps k')"
  by (induction ps) (auto split: option.splits)

lemma map_of_insert_new:
  "k \<notin> fst ` set ps \<Longrightarrow>
     map_of (insert_new k v ps) k' = (if k' = k then Some v else map_of ps k')"
proof -
  assume fresh: "k \<notin> fst ` set ps"
  then have "map_of ps k = None"
    by (simp add: map_of_eq_None_iff)
  with fresh show ?thesis
    by (cases "array_index k") (auto simp: insert_new_def map_of_insert_index map_add_def
        split: option.splits)
qed

lemma sorted_insert_index:
  "array_index k = Some n \<Longrightarrow> sorted_wrt key_before (map fst ps) \<Longrightarrow>
     sorted_wrt key_before (map fst (insert_index n k v ps))"
proof (induction ps)
  case Nil
  then show ?case by simp
next
  case (Cons p ps)
  show ?case
  proof (cases "array_index (fst p)")
    case None
    with Cons.prems show ?thesis
      by (auto simp: key_before_def split: option.splits)
  next
    case (Some m)
    show ?thesis
    proof (cases "m \<le> n")
      case True
      with Some Cons show ?thesis
        by (auto simp: set_insert_index key_before_def)
    next
      case False
      with Some Cons.prems show ?thesis
        by (auto simp: key_before_def split: option.splits)
    qed
  qed
qed

lemma sorted_insert_new:
  "sorted_wrt key_before (map fst ps) \<Longrightarrow> sorted_wrt key_before (map fst (insert_new k v ps))"
  by (auto simp: insert_new_def sorted_insert_index sorted_wrt_append key_before_def
      split: option.splits)

lemma wf_insert_new:
  "k \<notin> fst ` set ps \<Longrightarrow> wf_props ps \<Longrightarrow> wf_props (insert_new k v ps)"
  by (simp add: wf_props_def distinct_insert_new sorted_insert_new)

lemma wf_Nil: "wf_props []"
  by (simp add: wf_props_def)

lemma keys_update:
  "k \<in> fst ` set ps \<Longrightarrow> map fst (AList.update k v ps) = map fst ps"
  by (induction ps) auto

lemma wf_update: "k \<in> fst ` set ps \<Longrightarrow> wf_props ps \<Longrightarrow> wf_props (AList.update k v ps)"
  by (simp add: wf_props_def keys_update)

lemma wf_define_prop: "wf_props ps \<Longrightarrow> wf_props (define_prop k v ps)"
  by (simp add: define_prop_def wf_insert_new wf_update)

lemma wf_assign_true: "wf_props ps \<Longrightarrow> wf_props (assign_true k ps)"
  by (simp add: assign_true_def wf_insert_new wf_update)

lemma wf_delete_prop: "wf_props ps \<Longrightarrow> wf_props (delete_prop k ps)"
  by (simp add: wf_props_def delete_prop_def delete_keys distinct_removeAll
      removeAll_filter_not_eq sorted_wrt_filter)

lemma wf_foldl_define:
  "wf_props acc \<Longrightarrow> wf_props (foldl (\<lambda>acc p. define_prop (fst p) (snd p) acc) acc xs)"
  by (induction xs arbitrary: acc) (simp_all add: wf_define_prop)

lemma wf_spread: "wf_props (spread v)"
  by (simp add: spread_def wf_foldl_define wf_Nil)

lemma insert_index_append:
  "list_all (\<lambda>p. case array_index (fst p) of Some m \<Rightarrow> m \<le> n | None \<Rightarrow> False) ps \<Longrightarrow>
     insert_index n k v ps = ps @ [(k, v)]"
  by (induction ps) (auto split: option.splits)

lemma insert_new_append:
  assumes "sorted_wrt key_before (map fst (ps @ [(k, v)]))"
  shows "insert_new k v ps = ps @ [(k, v)]"
proof (cases "array_index k")
  case None
  then show ?thesis by (simp add: insert_new_def)
next
  case (Some n)
  from assms have "\<forall>p\<in>set ps. key_before (fst p) k"
    by (auto simp: sorted_wrt_append)
  with Some have "list_all (\<lambda>p. case array_index (fst p) of Some m \<Rightarrow> m \<le> n | None \<Rightarrow> False) ps"
    by (auto simp: list_all_iff key_before_def split: option.splits)
  with Some show ?thesis
    by (simp add: insert_new_def insert_index_append)
qed

lemma foldl_define_append:
  "wf_props (acc @ xs) \<Longrightarrow>
     foldl (\<lambda>acc p. define_prop (fst p) (snd p) acc) acc xs = acc @ xs"
proof (induction xs arbitrary: acc)
  case Nil
  then show ?case by simp
next
  case (Cons x xs)
  from Cons.prems have wf: "wf_props ((acc @ [x]) @ xs)" by simp
  from Cons.prems have fresh: "fst x \<notin> fst ` set acc"
    by (auto simp: wf_props_def)
  from Cons.prems have "sorted_wrt key_before (map fst (acc @ [(fst x, snd x)]))"
    by (auto simp: wf_props_def sorted_wrt_append)
  then have "insert_new (fst x) (snd x) acc = acc @ [x]"
    by (simp add: insert_new_append)
  with fresh have "define_prop (fst x) (snd x) acc = acc @ [x]"
    by (simp add: define_prop_def)
  with Cons.IH [OF wf] show ?case by simp
qed

lemma spread_object: "wf_props ps \<Longrightarrow> spread (JObj ps) = ps"
  using foldl_define_append [of "[]" ps] by (simp add: spread_def)

subsection \<open>The operations of the tracker, by the outcome of the write\<close>

lemma saveProgress_eq:
  "saveProgress J w =
     (case save_try J namespace storageKey (JObj (progress w)) (storage w) of
        Inr ls \<Rightarrow> (True, w\<lparr>storage := ls\<rparr>)
      | Inl e \<Rightarrow> (False, w))"
  by (simp add: saveProgress_def save_def split: sum.splits)

lemma updateStepUI_fields [simp]:
  "progress (updateStepUI s w) = progress w"
  "storage (updateStepUI s w) = storage w"
  "nav_items (updateStepUI s w) = nav_items w"
  "bar (updateStepUI s w) = bar w"
  "events (updateStepUI s w) = events w"
  "querySelector (updateStepUI s w) = querySelector w"
  by (simp_all add: updateStepUI_def split: option.splits)

lemma updateProgressBar_fields [simp]:
  "progress (updateProgressBar w) = progress w"
  "storage (updateProgressBar w) = storage w"
  "nav_items (updateProgressBar w) = nav_items w"
  "markers (updateProgressBar w) = markers w"
  "events (updateProgressBar w) = events w"
  by (simp_all add: updateProgressBar_def split: option.splits)

lemma foldl_updateStepUI_fields [simp]:
  "progress (foldl (\<lambda>w' stepId. updateStepUI stepId w') w ks) = progress w"
  "storage (foldl (\<lambda>w' stepId. updateStepUI stepId w') w ks) = storage w"
  "nav_items (foldl (\<lambda>w' stepId. updateStepUI stepId w') w ks) = nav_items w"
  "bar (foldl (\<lambda>w' stepId. updateStepUI stepId w') w ks) = bar w"
  "events (foldl (\<lambda>w' stepId. updateStepUI stepId w') w ks) = events w"
  by (induction ks arbitrary: w) simp_all

lemma updateUI_fields [simp]:
  "progress (updateUI w) = progress w"
  "storage (updateUI w) = storage w"
  "nav_items (updateUI w) = nav_items w"
  "events (updateUI w) = events w"
  by (simp_all add: updateUI_def)

lemma dispatchProgressEvent_fields [simp]:
  "progress (dispatchProgressEvent t d w) = progress w"
  "storage (dispatchProgressEvent t d w) = storage w"
  "nav_items (dispatchProgressEvent t d w) = nav_items w"
  "markers (dispatchProgressEvent t d w) = markers w"
  "bar (dispatchProgressEvent t d w) = bar w"
  "events (dispatchProgressEvent t d w) = events w @
     [\<lparr>ev_type = ''progress:'' @ t, ev_detail = d, ev_summary = getProgressSummary w\<rparr>]"
  by (simp_all add: dispatchProgressEvent_def)

text \<open>The summary is a function of the progress object and the number of navigation items.\<close>

lemma getProgressSummary_cong:
  "progress w' = progress w \<Longrightarrow> nav_items w' = nav_items w \<Longrightarrow>
     getProgressSummary w' = getProgressSummary w"
  by (simp add: getProgressSummary_def getCompletionPercentage_def getTotalSteps_def
      getCompletedStepsCount_def)

lemma markStepCompleted_eq:
  "s \<noteq> [] \<Longrightarrow>
   markStepCompleted J (Some s) w =
     (case save_try J namespace storageKey (JObj (assign_true s (progress w))) (storage w) of
        Inl e \<Rightarrow> (False, w\<lparr>progress := assign_true s (progress w)\<rparr>)
      | Inr ls \<Rightarrow>
          (True, dispatchProgressEvent ''step-completed'' [(''stepId'', JStr s)]
             (updateProgressBar (updateStepUI s
                (w\<lparr>progress := assign_true s (progress w), storage := ls\<rparr>)))))"
  by (simp add: markStepCompleted_def missing_def saveProgress_eq split: sum.splits)

lemma markStepIncomplete_eq:
  "s \<noteq> [] \<Longrightarrow>
   markStepIncomplete J (Some s) w =
     (case save_try J namespace storageKey (JObj (delete_prop s (progress w))) (storage w) of
        Inl e \<Rightarrow> (False, w\<lparr>progress := delete_prop s (progress w)\<rparr>)
      | Inr ls \<Rightarrow>
          (True, dispatchProgressEvent ''step-incompleted'' [(''stepId'', JStr s)]
             (updateProgressBar (updateStepUI s
                (w\<lparr>progress := delete_prop s (progress w), storage := ls\<rparr>)))))"
  by (simp add: markStepIncomplete_def missing_def saveProgress_eq split: sum.splits)

lemma importProgress_eq:
  "truthy data \<Longrightarrow> typeof data = ''object'' \<Longrightarrow>
   importProgress J data w =
     (case save_try J namespace storageKey (JObj (spread (data_progress data))) (storage w) of
        Inl e \<Rightarrow> (False, w\<lparr>progress := spread (data_progress data)\<rparr>)
      | Inr ls \<Rightarrow>
          (True, dispatchProgressEvent ''progress-imported'' [(''data'', data)]
             (updateUI (w\<lparr>progress := spread (data_progress data), storage := ls\<rparr>))))"
  by (simp add: importProgress_def saveProgress_eq split: sum.splits)

lemma resetProgress_eq:
  "resetProgress J w =
     (case save_try J namespace storageKey (JObj []) (storage w) of
        Inl e \<Rightarrow> (False, w\<lparr>progress := []\<rparr>)
      | Inr ls \<Rightarrow>
          (True, dispatchProgressEvent ''progress-reset'' []
             (updateUI (w\<lparr>progress := [], storage := ls\<rparr>))))"
  by (simp add: resetProgress_def saveProgress_eq split: sum.splits)

lemma progress_markStepCompleted:
  "s \<noteq> [] \<Longrightarrow> progress (snd (markStepCompleted J (Some s) w)) = assign_true s (progress w)"
  by (simp add: markStepCompleted_eq split: sum.splits)

lemma progress_markStepIncomplete:
  "s \<noteq> [] \<Longrightarrow> progress (snd (markStepIncomplete J (Some s) w)) = delete_prop s (progress w)"
  by (simp add: markStepIncomplete_eq split: sum.splits)

lemma get_prop_delete_inherited:
  "get_prop (delete_prop k ps) k = object_prototype_get k"
  by (simp add: get_prop_def delete_prop_def delete_conv')

lemma save_try_stored:
  "save_try J ns key v ls = Inr ls' \<Longrightarrow> map_of (ls_items ls') (getKey ns key) = J v"
  by (auto simp: save_try_def setItem_def Let_def update_conv' split: option.splits if_splits)

lemma assign_true_again:
  "map_of ps s = Some (JBool True) \<Longrightarrow> assign_true s ps = ps"
  by (auto simp: assign_true_def update_triv dest: map_of_SomeD intro: rev_image_eqI)

lemma get_prop_assign_true: "truthy (get_prop (assign_true s ps) s)"
proof (cases "s \<in> fst ` set ps")
  case True
  then show ?thesis
    by (simp add: assign_true_def get_prop_def update_conv')
next
  case False
  then have "map_of ps s = None"
    by (simp add: map_of_eq_None_iff)
  with False show ?thesis
    by (auto simp: assign_true_def get_prop_def map_of_insert_new object_prototype_get_def)
qed

lemma map_of_assign_true:
  "s \<noteq> ''__proto__'' \<Longrightarrow> map_of (assign_true s ps) s = Some (JBool True)"
proof (cases "s \<in> fst ` set ps")
  case True
  then show ?thesis
    by (simp add: assign_true_def update_conv')
next
  case False
  assume "s \<noteq> ''__proto__''"
  with False show ?thesis
    by (simp add: assign_true_def map_of_insert_new)
qed

lemma own_entries:
  "distinct (map fst ps) \<Longrightarrow> p \<in> set ps \<Longrightarrow> get_prop ps (fst p) = snd p"
  by (cases p) (simp add: get_prop_def)

lemma completed_ids:
  "distinct (map fst ps) \<Longrightarrow>
     filter (\<lambda>k. truthy (get_prop ps k)) (object_keys ps) = map fst (filter (\<lambda>p. truthy (snd p)) ps)"
proof -
  assume d: "distinct (map fst ps)"
  have "filter (\<lambda>k. truthy (get_prop ps k)) (map fst ps)
      = map fst (filter (\<lambda>p. truthy (get_prop ps (fst p))) ps)"
    by (simp add: filter_map comp_def)
  also have "filter (\<lambda>p. truthy (get_prop ps (fst p))) ps = filter (\<lambda>p. truthy (snd p)) ps"
    by (rule filter_cong) (simp_all add: own_entries [OF d])
  finally show ?thesis by (simp add: object_keys_def)
qed

lemma summary_consistent_wf:
  "wf_props (progress w) \<Longrightarrow> summary_consistent (progress w) (getProgressSummary w)"
  by (simp add: summary_consistent_def getProgressSummary_def getCompletedStepsCount_def
      object_values_def completed_ids wf_props_def filter_map comp_def)

section \<open>A failed write\<close>

text \<open>
  C2, as the code has it. When the write of a non-empty step id's change fails,
  \<^verbatim>\<open>markStepCompleted\<close> and \<^verbatim>\<open>markStepIncomplete\<close> return false, dispatch no
  event and leave the storage and the page as they were. The progress object in memory is
  not restored: it is what the assignment \<^verbatim>\<open>this.progress[stepId] = true\<close>, or the
  deletion of the entry, made before the write left. For every step id other than
  \<open>__proto__\<close> the entry of the step id is \<^verbatim>\<open>true\<close> after the assignment; after the
  deletion the object has no entry for the step id.
\<close>

theorem mark_write_failure:
  "s \<noteq> [] \<longrightarrow>
   (save_try J namespace storageKey (JObj (assign_true s (progress w))) (storage w) = Inl e
      \<longrightarrow> markStepCompleted J (Some s) w = (False, w\<lparr>progress := assign_true s (progress w)\<rparr>) \<and>
          (s \<noteq> ''__proto__'' \<longrightarrow> map_of (assign_true s (progress w)) s = Some (JBool True))) \<and>
   (save_try J namespace storageKey (JObj (delete_prop s (progress w))) (storage w) = Inl e'
      \<longrightarrow> markStepIncomplete J (Some s) w = (False, w\<lparr>progress := delete_prop s (progress w)\<rparr>) \<and>
          map_of (delete_prop s (progress w)) s = None)"
  by (simp add: markStepCompleted_eq markStepIncomplete_eq map_of_assign_true delete_prop_def
      delete_conv')

theorem mark_write_failure_witness:
  "markStepCompleted (\<lambda>v. Some ''{}'') (Some ''a'')
      \<lparr>progress = [], storage = \<lparr>ls_items = [], ls_enabled = False, ls_quota = 100\<rparr>,
       nav_items = 1, querySelector = (\<lambda>selector. None), markers = [], bar = None, events = []\<rparr>
    = (False, \<lparr>progress = [(''a'', JBool True)],
               storage = \<lparr>ls_items = [], ls_enabled = False, ls_quota = 100\<rparr>,
               nav_items = 1, querySelector = (\<lambda>selector. None), markers = [], bar = None, events = []\<rparr>) \<and>
   markStepIncomplete (\<lambda>v. Some ''{}'') (Some ''a'')
      \<lparr>progress = [(''a'', JBool True)],
       storage = \<lparr>ls_items = [(''theme_preference'', ''dark'')], ls_enabled = True, ls_quota = 20\<rparr>,
       nav_items = 1, querySelector = (\<lambda>selector. None), markers = [], bar = None, events = []\<rparr>
    = (False, \<lparr>progress = [],
               storage = \<lparr>ls_items = [(''theme_preference'', ''dark'')], ls_enabled = True, ls_quota = 20\<rparr>,
               nav_items = 1, querySelector = (\<lambda>selector. None), markers = [], bar = None, events = []\<rparr>)"
proof -
  let ?J = "\<lambda>v::jsval. Some ''{}''"
  let ?w = "\<lparr>progress = [], storage = \<lparr>ls_items = [], ls_enabled = False, ls_quota = 100\<rparr>,
       nav_items = 1, querySelector = (\<lambda>selector. None), markers = [], bar = None, events = []\<rparr>"
  let ?w' = "\<lparr>progress = [(''a'', JBool True)],
       storage = \<lparr>ls_items = [(''theme_preference'', ''dark'')], ls_enabled = True, ls_quota = 20\<rparr>,
       nav_items = 1, querySelector = (\<lambda>selector. None), markers = [], bar = None, events = []\<rparr>"
  have id: "''a'' \<noteq> []" by simp
  have set: "assign_true ''a'' (progress ?w) = [(''a'', JBool True)]"
    by code_simp
  have del: "delete_prop ''a'' (progress ?w') = []"
    by code_simp
  have unavailable:
    "save_try ?J namespace storageKey (JObj (assign_true ''a'' (progress ?w))) (storage ?w)
       = Inl SecurityError"
    by code_simp
  have quota:
    "save_try ?J namespace storageKey (JObj (delete_prop ''a'' (progress ?w'))) (storage ?w')
       = Inl QuotaExceededError"
    by code_simp
  from mark_write_failure [of "''a''" ?J ?w SecurityError QuotaExceededError] id unavailable
  have "markStepCompleted ?J (Some ''a'') ?w = (False, ?w\<lparr>progress := assign_true ''a'' (progress ?w)\<rparr>)"
    by blast
  moreover from mark_write_failure [of "''a''" ?J ?w' SecurityError QuotaExceededError] id quota
  have "markStepIncomplete ?J (Some ''a'') ?w' = (False, ?w'\<lparr>progress := delete_prop ''a'' (progress ?w')\<rparr>)"
    by blast
  ultimately show ?thesis
    by (simp only: set del) simp
qed

text \<open>
  With storage disabled, marking step \<open>a\<close> on an empty progress object returns false and
  yet leaves the entry in the object.
\<close>

theorem mark_write_failure_counterexample:
  "fst (markStepCompleted (\<lambda>v. Some ''{}'') (Some ''a'')
      \<lparr>progress = [], storage = \<lparr>ls_items = [], ls_enabled = False, ls_quota = 100\<rparr>,
       nav_items = 1, querySelector = (\<lambda>selector. None), markers = [], bar = None, events = []\<rparr>) = False \<and>
   progress (snd (markStepCompleted (\<lambda>v. Some ''{}'') (Some ''a'')
      \<lparr>progress = [], storage = \<lparr>ls_items = [], ls_enabled = False, ls_quota = 100\<rparr>,
       nav_items = 1, querySelector = (\<lambda>selector. None), markers = [], bar = None, events = []\<rparr>)) = [(''a'', JBool True)]"
  by code_simp

section \<open>Marking and looking up\<close>

text \<open>
  After \<^verbatim>\<open>markStepCompleted\<close> of a non-empty step id the step is reported completed,
  and \<^verbatim>\<open>markStepIncomplete\<close> removes the entry from the progress object. The step is
  then reported not completed, unless its id is a name that the progress object inherits
  from \<^verbatim>\<open>Object.prototype\<close>.
\<close>

lemma markStepCompleted_then_isStepCompleted:
  "s \<noteq> [] \<Longrightarrow> isStepCompleted (snd (markStepCompleted J (Some s) w)) s"
  by (simp add: isStepCompleted_def progress_markStepCompleted get_prop_assign_true)

lemma markStepIncomplete_removes_entry:
  "s \<noteq> [] \<Longrightarrow> map_of (progress (snd (markStepIncomplete J (Some s) w))) s = None"
  by (simp add: progress_markStepIncomplete delete_prop_def delete_conv')

lemma markStepIncomplete_then_isStepCompleted:
  "s \<noteq> [] \<Longrightarrow> s \<noteq> ''__proto__'' \<Longrightarrow> s \<notin> set object_prototype_names \<Longrightarrow>
     \<not> isStepCompleted (snd (markStepIncomplete J (Some s) w)) s"
  by (simp add: isStepCompleted_def progress_markStepIncomplete get_prop_delete_inherited
      object_prototype_get_def)

text \<open>
  C3 at the step id \<open>constructor\<close>: whatever the state and the outcome of the write,
  \<^verbatim>\<open>isStepCompleted\<close> returns true after \<^verbatim>\<open>markStepIncomplete\<close>, because the
  lookup \<^verbatim>\<open>this.progress[stepId]\<close> finds the inherited function.
\<close>

theorem markStepIncomplete_inherited:
  "isStepCompleted (snd (markStepIncomplete J (Some ''constructor'') w)) ''constructor''"
  by (simp add: isStepCompleted_def progress_markStepIncomplete get_prop_delete_inherited
      object_prototype_get_def object_prototype_names_def)

section \<open>Marking a completed step again\<close>

text \<open>
  C6, as the code has it. For a non-empty step id whose entry is \<^verbatim>\<open>true\<close>,
  \<^verbatim>\<open>markStepCompleted\<close> leaves the progress object and the summary unchanged. When
  the write succeeds it returns true, the storage holds the serialised progress object
  again, and one more \<^verbatim>\<open>progress:step-completed\<close> event with the step id and the
  unchanged summary is dispatched. When the write fails it returns false and nothing at
  all changes: no event is dispatched.
\<close>

theorem markStepCompleted_again:
  "s \<noteq> [] \<and> map_of (progress w) s = Some (JBool True) \<longrightarrow>
     progress (snd (markStepCompleted J (Some s) w)) = progress w \<and>
     getProgressSummary (snd (markStepCompleted J (Some s) w)) = getProgressSummary w \<and>
     (save_try J namespace storageKey (JObj (progress w)) (storage w) = Inr ls \<longrightarrow>
        fst (markStepCompleted J (Some s) w) = True \<and>
        storage (snd (markStepCompleted J (Some s) w)) = ls \<and>
        map_of (ls_items ls) (getKey namespace storageKey) = J (JObj (progress w)) \<and>
        events (snd (markStepCompleted J (Some s) w)) = events w @
          [\<lparr>ev_type = ''progress:step-completed'', ev_detail = [(''stepId'', JStr s)],
            ev_summary = getProgressSummary w\<rparr>]) \<and>
     (save_try J namespace storageKey (JObj (progress w)) (storage w) = Inl e \<longrightarrow>
        markStepCompleted J (Some s) w = (False, w))"
proof (intro impI, elim conjE)
  assume s: "s \<noteq> []" and own: "map_of (progress w) s = Some (JBool True)"
  have same: "assign_true s (progress w) = progress w"
    using own by (rule assign_true_again)
  have sum: "getProgressSummary (updateProgressBar (updateStepUI s (w\<lparr>storage := ls'\<rparr>)))
      = getProgressSummary w" for ls'
    by (rule getProgressSummary_cong) simp_all
  show "progress (snd (markStepCompleted J (Some s) w)) = progress w \<and>
     getProgressSummary (snd (markStepCompleted J (Some s) w)) = getProgressSummary w \<and>
     (save_try J namespace storageKey (JObj (progress w)) (storage w) = Inr ls \<longrightarrow>
        fst (markStepCompleted J (Some s) w) = True \<and>
        storage (snd (markStepCompleted J (Some s) w)) = ls \<and>
        map_of (ls_items ls) (getKey namespace storageKey) = J (JObj (progress w)) \<and>
        events (snd (markStepCompleted J (Some s) w)) = events w @
          [\<lparr>ev_type = ''progress:step-completed'', ev_detail = [(''stepId'', JStr s)],
            ev_summary = getProgressSummary w\<rparr>]) \<and>
     (save_try J namespace storageKey (JObj (progress w)) (storage w) = Inl e \<longrightarrow>
        markStepCompleted J (Some s) w = (False, w))"
  proof (cases "save_try J namespace storageKey (JObj (progress w)) (storage w)")
    case (Inl e')
    with s same show ?thesis
      by (simp add: markStepCompleted_eq)
  next
    case (Inr ls')
    have "getProgressSummary (dispatchProgressEvent ''step-completed'' [(''stepId'', JStr s)]
        (updateProgressBar (updateStepUI s (w\<lparr>storage := ls'\<rparr>)))) = getProgressSummary w"
      by (rule getProgressSummary_cong) simp_all
    with s same Inr sum [of ls'] save_try_stored [OF Inr] show ?thesis
      by (auto simp: markStepCompleted_eq)
  qed
qed

theorem markStepCompleted_again_witness:
  "fst (markStepCompleted (\<lambda>v. Some ''{3:true}'') (Some ''3'')
      \<lparr>progress = [(''3'', JBool True)],
       storage = \<lparr>ls_items = [], ls_enabled = True, ls_quota = 100\<rparr>,
       nav_items = 5, querySelector = (\<lambda>selector. None), markers = [], bar = Some 20, events = []\<rparr>) = True \<and>
   progress (snd (markStepCompleted (\<lambda>v. Some ''{3:true}'') (Some ''3'')
      \<lparr>progress = [(''3'', JBool True)],
       storage = \<lparr>ls_items = [], ls_enabled = True, ls_quota = 100\<rparr>,
       nav_items = 5, querySelector = (\<lambda>selector. None), markers = [], bar = Some 20, events = []\<rparr>))
     = [(''3'', JBool True)] \<and>
   storage (snd (markStepCompleted (\<lambda>v. Some ''{3:true}'') (Some ''3'')
      \<lparr>progress = [(''3'', JBool True)],
       storage = \<lparr>ls_items = [], ls_enabled = True, ls_quota = 100\<rparr>,
       nav_items = 5, querySelector = (\<lambda>selector. None), markers = [], bar = Some 20, events = []\<rparr>))
     = \<lparr>ls_items = [(''mcp_progress'', ''{3:true}'')], ls_enabled = True, ls_quota = 100\<rparr> \<and>
   events (snd (markStepCompleted (\<lambda>v. Some ''{3:true}'') (Some ''3'')
      \<lparr>progress = [(''3'', JBool True)],
       storage = \<lparr>ls_items = [], ls_enabled = True, ls_quota = 100\<rparr>,
       nav_items = 5, querySelector = (\<lambda>selector. None), markers = [], bar = Some 20, events = []\<rparr>))
     = [\<lparr>ev_type = ''progress:step-completed'', ev_detail = [(''stepId'', JStr ''3'')],
         ev_summary = \<lparr>totalSteps = 5, completedSteps = 1, percentage = 20,
                        completedStepIds = [''3'']\<rparr>\<rparr>]"
proof -
  let ?J = "\<lambda>v::jsval. Some ''{3:true}''"
  let ?w = "\<lparr>progress = [(''3'', JBool True)],
       storage = \<lparr>ls_items = [], ls_enabled = True, ls_quota = 100\<rparr>,
       nav_items = 5, querySelector = (\<lambda>selector. None), markers = [], bar = Some 20, events = []\<rparr>"
  let ?ls = "\<lparr>ls_items = [(''mcp_progress'', ''{3:true}'')], ls_enabled = True, ls_quota = 100\<rparr>"
  let ?r = "markStepCompleted ?J (Some ''3'') ?w"
  have id: "''3'' \<noteq> [] \<and> map_of (progress ?w) ''3'' = Some (JBool True)"
    by simp
  have written: "save_try ?J namespace storageKey (JObj (progress ?w)) (storage ?w) = Inr ?ls"
    by code_simp
  have summary: "getProgressSummary ?w
      = \<lparr>totalSteps = 5, completedSteps = 1, percentage = 20, completedStepIds = [''3'']\<rparr>"
    by code_simp
  from markStepCompleted_again [of "''3''" ?w ?J ?ls SecurityError] id written
  have "progress (snd ?r) = progress ?w" and "fst ?r = True" and "storage (snd ?r) = ?ls"
    and "events (snd ?r) = events ?w @
          [\<lparr>ev_type = ''progress:step-completed'', ev_detail = [(''stepId'', JStr ''3'')],
            ev_summary = getProgressSummary ?w\<rparr>]"
    by blast+
  with summary show ?thesis
    by simp
qed

text \<open>
  With storage disabled, marking the completed step \<open>3\<close> again returns false, stores
  nothing and dispatches nothing.
\<close>

theorem markStepCompleted_again_counterexample:
  "map_of [(''3'', JBool True)] ''3'' = Some (JBool True) \<and>
   markStepCompleted (\<lambda>v. Some ''{3:true}'') (Some ''3'')
      \<lparr>progress = [(''3'', JBool True)],
       storage = \<lparr>ls_items = [], ls_enabled = False, ls_quota = 100\<rparr>,
       nav_items = 5, querySelector = (\<lambda>selector. None), markers = [], bar = None, events = []\<rparr>
    = (False, \<lparr>progress = [(''3'', JBool True)],
               storage = \<lparr>ls_items = [], ls_enabled = False, ls_quota = 100\<rparr>,
               nav_items = 5, querySelector = (\<lambda>selector. None), markers = [], bar = None, events = []\<rparr>)"
proof -
  have "save_try (\<lambda>v. Some ''{3:true}'') namespace storageKey v
      \<lparr>ls_items = [], ls_enabled = False, ls_quota = 100\<rparr> = Inl SecurityError" for v
    by (simp add: save_try_def setItem_def)
  moreover have "assign_true ''3'' [(''3'', JBool True)] = [(''3'', JBool True)]"
    by (simp add: assign_true_def)
  ultimately show ?thesis
    by (simp add: markStepCompleted_eq)
qed

section \<open>Import and export\<close>

lemma getProgressSummary_updateUI:
  "getProgressSummary (updateUI w) = getProgressSummary w"
  by (rule getProgressSummary_cong) simp_all

lemma spread_undefined: "spread JUndefined = []"
  by (simp add: spread_def)

lemma data_progress_missing:
  "map_of ds ''progress'' = None \<Longrightarrow> get_prop ds ''progress'' = JUndefined"
  by (simp add: get_prop_def object_prototype_get_def object_prototype_names_def)

text \<open>
  C7, as the code has it. \<^verbatim>\<open>importProgress\<close> returns false and changes nothing when the
  data is falsy or not of type object. Otherwise the progress object becomes the spread
  copy of \<^verbatim>\<open>data.progress\<close>: empty when the data has no such field, the properties
  of the field when it is an object. Then the write decides: when it succeeds the call
  returns true, the storage holds the serialised new progress object and a
  \<^verbatim>\<open>progress:progress-imported\<close> event with the data and the new summary is
  dispatched; when it fails the call returns false, nothing is stored or dispatched, and
  the progress object stays replaced.
\<close>

theorem importProgress_behaviour:
  "(\<not> truthy data \<or> typeof data \<noteq> ''object'' \<longrightarrow> importProgress J data w = (False, w)) \<and>
   (truthy data \<and> typeof data = ''object'' \<longrightarrow>
      progress (snd (importProgress J data w)) = spread (data_progress data) \<and>
      (data = JObj ds \<and> map_of ds ''progress'' = None \<longrightarrow>
         progress (snd (importProgress J data w)) = []) \<and>
      (data_progress data = JObj ps \<and> wf_props ps \<longrightarrow>
         progress (snd (importProgress J data w)) = ps) \<and>
      (save_try J namespace storageKey (JObj (spread (data_progress data))) (storage w) = Inr ls \<longrightarrow>
         fst (importProgress J data w) = True \<and>
         storage (snd (importProgress J data w)) = ls \<and>
         map_of (ls_items ls) (getKey namespace storageKey) = J (JObj (spread (data_progress data))) \<and>
         events (snd (importProgress J data w)) = events w @
           [\<lparr>ev_type = ''progress:progress-imported'', ev_detail = [(''data'', data)],
             ev_summary = getProgressSummary (w\<lparr>progress := spread (data_progress data)\<rparr>)\<rparr>]) \<and>
      (save_try J namespace storageKey (JObj (spread (data_progress data))) (storage w) = Inl e \<longrightarrow>
         importProgress J data w = (False, w\<lparr>progress := spread (data_progress data)\<rparr>)))"
proof (intro conjI impI)
  assume "\<not> truthy data \<or> typeof data \<noteq> ''object''"
  then show "importProgress J data w = (False, w)"
    by (auto simp: importProgress_def)
next
  assume obj: "truthy data \<and> typeof data = ''object''"
  then show new: "progress (snd (importProgress J data w)) = spread (data_progress data)"
    by (simp add: importProgress_eq split: sum.splits)
  {
    assume "data = JObj ds \<and> map_of ds ''progress'' = None"
    with new show "progress (snd (importProgress J data w)) = []"
      by (simp add: data_progress_missing spread_undefined)
  }
  {
    assume "data_progress data = JObj ps \<and> wf_props ps"
    with new show "progress (snd (importProgress J data w)) = ps"
      by (simp add: spread_object)
  }
  {
    assume ok: "save_try J namespace storageKey (JObj (spread (data_progress data))) (storage w) = Inr ls"
    with obj show "fst (importProgress J data w) = True"
      and "storage (snd (importProgress J data w)) = ls"
      by (simp_all add: importProgress_eq)
    from ok show "map_of (ls_items ls) (getKey namespace storageKey) = J (JObj (spread (data_progress data)))"
      by (rule save_try_stored)
    have "getProgressSummary (updateUI (w\<lparr>progress := spread (data_progress data), storage := ls\<rparr>))
        = getProgressSummary (w\<lparr>progress := spread (data_progress data)\<rparr>)"
      by (rule getProgressSummary_cong) simp_all
    with obj ok show "events (snd (importProgress J data w)) = events w @
           [\<lparr>ev_type = ''progress:progress-imported'', ev_detail = [(''data'', data)],
             ev_summary = getProgressSummary (w\<lparr>progress := spread (data_progress data)\<rparr>)\<rparr>]"
      by (simp add: importProgress_eq)
  }
  {
    assume "save_try J namespace storageKey (JObj (spread (data_progress data))) (storage w) = Inl e"
    with obj show "importProgress J data w = (False, w\<lparr>progress := spread (data_progress data)\<rparr>)"
      by (simp add: importProgress_eq)
  }
qed

theorem importProgress_behaviour_witness:
  "importProgress (\<lambda>v. Some ''{a:true}'') JNull
      \<lparr>progress = [], storage = \<lparr>ls_items = [], ls_enabled = True, ls_quota = 100\<rparr>,
       nav_items = 1, querySelector = (\<lambda>selector. None), markers = [], bar = None, events = []\<rparr>
    = (False, \<lparr>progress = [], storage = \<lparr>ls_items = [], ls_enabled = True, ls_quota = 100\<rparr>,
               nav_items = 1, querySelector = (\<lambda>selector. None), markers = [], bar = None, events = []\<rparr>) \<and>
   fst (importProgress (\<lambda>v. Some ''{a:true}'') (JObj [(''progress'', JObj [(''a'', JBool True)])])
      \<lparr>progress = [], storage = \<lparr>ls_items = [], ls_enabled = True, ls_quota = 100\<rparr>,
       nav_items = 1, querySelector = (\<lambda>selector. None), markers = [], bar = None, events = []\<rparr>) = True \<and>
   progress (snd (importProgress (\<lambda>v. Some ''{a:true}'')
      (JObj [(''progress'', JObj [(''a'', JBool True)])])
      \<lparr>progress = [], storage = \<lparr>ls_items = [], ls_enabled = True, ls_quota = 100\<rparr>,
       nav_items = 1, querySelector = (\<lambda>selector. None), markers = [], bar = None, events = []\<rparr>)) = [(''a'', JBool True)] \<and>
   storage (snd (importProgress (\<lambda>v. Some ''{a:true}'')
      (JObj [(''progress'', JObj [(''a'', JBool True)])])
      \<lparr>progress = [], storage = \<lparr>ls_items = [], ls_enabled = True, ls_quota = 100\<rparr>,
       nav_items = 1, querySelector = (\<lambda>selector. None), markers = [], bar = None, events = []\<rparr>))
     = \<lparr>ls_items = [(''mcp_progress'', ''{a:true}'')], ls_enabled = True, ls_quota = 100\<rparr> \<and>
   progress (snd (importProgress (\<lambda>v. Some ''{a:true}'') (JObj [(''summary'', JNull)])
      \<lparr>progress = [(''a'', JBool True)],
       storage = \<lparr>ls_items = [], ls_enabled = False, ls_quota = 100\<rparr>,
       nav_items = 1, querySelector = (\<lambda>selector. None), markers = [], bar = None, events = []\<rparr>)) = []"
proof -
  let ?J = "\<lambda>v::jsval. Some ''{a:true}''"
  let ?w = "\<lparr>progress = [], storage = \<lparr>ls_items = [], ls_enabled = True, ls_quota = 100\<rparr>,
       nav_items = 1, querySelector = (\<lambda>selector. None), markers = [], bar = None, events = []\<rparr>"
  let ?w' = "\<lparr>progress = [(''a'', JBool True)],
       storage = \<lparr>ls_items = [], ls_enabled = False, ls_quota = 100\<rparr>,
       nav_items = 1, querySelector = (\<lambda>selector. None), markers = [], bar = None, events = []\<rparr>"
  let ?d = "JObj [(''progress'', JObj [(''a'', JBool True)])]"
  let ?d' = "JObj [(''summary'', JNull)]"
  let ?ls = "\<lparr>ls_items = [(''mcp_progress'', ''{a:true}'')], ls_enabled = True, ls_quota = 100\<rparr>"
  have rejected: "\<not> truthy JNull \<or> typeof JNull \<noteq> ''object''"
    by simp
  have obj: "truthy ?d \<and> typeof ?d = ''object''"
    by simp
  have obj': "truthy ?d' \<and> typeof ?d' = ''object''"
    by simp
  have field: "data_progress ?d = JObj [(''a'', JBool True)] \<and> wf_props [(''a'', JBool True)]"
    by code_simp
  have missing: "?d' = JObj [(''summary'', JNull)] \<and> map_of [(''summary'', JNull)] ''progress'' = None"
    by simp
  have copy: "spread (data_progress ?d) = [(''a'', JBool True)]"
    by code_simp
  have written:
    "save_try ?J namespace storageKey (JObj (spread (data_progress ?d))) (storage ?w) = Inr ?ls"
    by code_simp
  from importProgress_behaviour [of JNull ?J ?w] rejected
  have 1: "importProgress ?J JNull ?w = (False, ?w)"
    by blast
  from importProgress_behaviour [of ?d ?J ?w _ "[(''a'', JBool True)]" ?ls] obj field written
  have 2: "progress (snd (importProgress ?J ?d ?w)) = [(''a'', JBool True)]"
    and 3: "fst (importProgress ?J ?d ?w) = True"
    and 4: "storage (snd (importProgress ?J ?d ?w)) = ?ls"
    by blast+
  from importProgress_behaviour [of ?d' ?J ?w' "[(''summary'', JNull)]"] obj' missing
  have 5: "progress (snd (importProgress ?J ?d' ?w')) = []"
    by blast
  from 1 2 3 4 5 show ?thesis
    by simp
qed

text \<open>
  With storage disabled, importing an object with a progress field returns false and
  dispatches nothing, and the progress object is replaced all the same.
\<close>

theorem importProgress_behaviour_counterexample:
  "truthy (JObj [(''progress'', JObj [(''a'', JBool True)])]) \<and>
   typeof (JObj [(''progress'', JObj [(''a'', JBool True)])]) = ''object'' \<and>
   importProgress (\<lambda>v. Some ''{a:true}'') (JObj [(''progress'', JObj [(''a'', JBool True)])])
      \<lparr>progress = [], storage = \<lparr>ls_items = [], ls_enabled = False, ls_quota = 100\<rparr>,
       nav_items = 1, querySelector = (\<lambda>selector. None), markers = [], bar = None, events = []\<rparr>
    = (False, \<lparr>progress = [(''a'', JBool True)],
               storage = \<lparr>ls_items = [], ls_enabled = False, ls_quota = 100\<rparr>,
               nav_items = 1, querySelector = (\<lambda>selector. None), markers = [], bar = None, events = []\<rparr>)"
proof -
  have "save_try (\<lambda>v. Some ''{a:true}'') namespace storageKey v
      \<lparr>ls_items = [], ls_enabled = False, ls_quota = 100\<rparr> = Inl SecurityError" for v
    by (simp add: save_try_def setItem_def)
  moreover have "spread (data_progress (JObj [(''progress'', JObj [(''a'', JBool True)])]))
      = [(''a'', JBool True)]"
    by code_simp
  ultimately show ?thesis
    by (simp add: importProgress_eq)
qed

lemma exportProgress_object:
  "truthy (exportProgress now w) \<and> typeof (exportProgress now w) = ''object''"
  by (simp add: exportProgress_def)

lemma data_progress_export:
  "data_progress (exportProgress now w) = JObj (spread (JObj (progress w)))"
  by (simp add: exportProgress_def get_prop_def)

lemma progress_import_export:
  "wf_props (progress w) \<Longrightarrow>
     progress (snd (importProgress J (exportProgress now w) w)) = progress w"
  by (simp add: importProgress_eq exportProgress_object data_progress_export spread_object
      split: sum.splits)

text \<open>
  C5, as the code has it. Importing what \<^verbatim>\<open>exportProgress\<close> has just returned
  leaves the progress object and the summary unchanged, and returns true exactly when the
  write of the progress object succeeds.
\<close>

theorem export_import_roundtrip:
  "wf_props (progress w) \<longrightarrow>
     progress (snd (importProgress J (exportProgress now w) w)) = progress w \<and>
     getProgressSummary (snd (importProgress J (exportProgress now w) w)) = getProgressSummary w \<and>
     fst (importProgress J (exportProgress now w) w) =
       (case save_try J namespace storageKey (JObj (progress w)) (storage w) of
          Inr ls \<Rightarrow> True | Inl e \<Rightarrow> False)"
proof
  assume wf: "wf_props (progress w)"
  let ?r = "importProgress J (exportProgress now w) w"
  have p: "progress (snd ?r) = progress w"
    using wf by (rule progress_import_export)
  have n: "nav_items (snd ?r) = nav_items w"
    by (simp add: importProgress_eq exportProgress_object split: sum.splits)
  have s: "getProgressSummary (snd ?r) = getProgressSummary w"
    using p n by (rule getProgressSummary_cong)
  have "fst ?r = (case save_try J namespace storageKey (JObj (progress w)) (storage w) of
          Inr ls \<Rightarrow> True | Inl e \<Rightarrow> False)"
    using wf by (simp add: importProgress_eq exportProgress_object data_progress_export
        spread_object split: sum.splits)
  with p s show "progress (snd ?r) = progress w \<and> getProgressSummary (snd ?r) = getProgressSummary w \<and>
     fst ?r = (case save_try J namespace storageKey (JObj (progress w)) (storage w) of
          Inr ls \<Rightarrow> True | Inl e \<Rightarrow> False)"
    by simp
qed

theorem export_import_roundtrip_witness:
  "wf_props [(''3'', JBool True)] \<and>
   progress (snd (importProgress (\<lambda>v. Some ''{3:true}'')
      (exportProgress ''2026-01-01T00:00:00.000Z''
        \<lparr>progress = [(''3'', JBool True)],
         storage = \<lparr>ls_items = [], ls_enabled = True, ls_quota = 100\<rparr>,
         nav_items = 5, querySelector = (\<lambda>selector. None), markers = [], bar = None, events = []\<rparr>)
      \<lparr>progress = [(''3'', JBool True)],
       storage = \<lparr>ls_items = [], ls_enabled = True, ls_quota = 100\<rparr>,
       nav_items = 5, querySelector = (\<lambda>selector. None), markers = [], bar = None, events = []\<rparr>)) = [(''3'', JBool True)] \<and>
   fst (importProgress (\<lambda>v. Some ''{3:true}'')
      (exportProgress ''2026-01-01T00:00:00.000Z''
        \<lparr>progress = [(''3'', JBool True)],
         storage = \<lparr>ls_items = [], ls_enabled = True, ls_quota = 100\<rparr>,
         nav_items = 5, querySelector = (\<lambda>selector. None), markers = [], bar = None, events = []\<rparr>)
      \<lparr>progress = [(''3'', JBool True)],
       storage = \<lparr>ls_items = [], ls_enabled = True, ls_quota = 100\<rparr>,
       nav_items = 5, querySelector = (\<lambda>selector. None), markers = [], bar = None, events = []\<rparr>) = True"
proof -
  let ?J = "\<lambda>v::jsval. Some ''{3:true}''"
  let ?w = "\<lparr>progress = [(''3'', JBool True)],
       storage = \<lparr>ls_items = [], ls_enabled = True, ls_quota = 100\<rparr>,
       nav_items = 5, querySelector = (\<lambda>selector. None), markers = [], bar = None, events = []\<rparr>"
  have wf: "wf_props [(''3'', JBool True)]"
    by code_simp
  then have wf': "wf_props (progress ?w)"
    by simp
  have written: "(case save_try ?J namespace storageKey (JObj (progress ?w)) (storage ?w) of
      Inr ls \<Rightarrow> True | Inl e \<Rightarrow> False) = True"
    by code_simp
  from export_import_roundtrip [of ?w ?J "''2026-01-01T00:00:00.000Z''"] wf' written wf
  show ?thesis
    by simp
qed

text \<open>With storage disabled the import of the exported snapshot returns false.\<close>

theorem export_import_roundtrip_counterexample:
  "fst (importProgress (\<lambda>v. Some ''{3:true}'')
      (exportProgress ''2026-01-01T00:00:00.000Z''
        \<lparr>progress = [(''3'', JBool True)],
         storage = \<lparr>ls_items = [], ls_enabled = False, ls_quota = 100\<rparr>,
         nav_items = 5, querySelector = (\<lambda>selector. None), markers = [], bar = None, events = []\<rparr>)
      \<lparr>progress = [(''3'', JBool True)],
       storage = \<lparr>ls_items = [], ls_enabled = False, ls_quota = 100\<rparr>,
       nav_items = 5, querySelector = (\<lambda>selector. None), markers = [], bar = None, events = []\<rparr>) = False"
  proof -
  have "save_try (\<lambda>v. Some ''{3:true}'') namespace storageKey v
      \<lparr>ls_items = [], ls_enabled = False, ls_quota = 100\<rparr> = Inl SecurityError" for v
    by (simp add: save_try_def setItem_def)
  then show ?thesis
    by (simp add: importProgress_eq exportProgress_object)
qed

section \<open>The summary is consistent\<close>

lemma wf_markStepCompleted:
  "wf_props (progress w) \<Longrightarrow> wf_props (progress (snd (markStepCompleted J stepId w)))"
proof (cases "missing stepId")
  case True
  assume "wf_props (progress w)"
  with True show ?thesis by (simp add: markStepCompleted_def)
next
  case False
  assume wf: "wf_props (progress w)"
  from False obtain s where "stepId = Some s" and "s \<noteq> []"
    by (auto simp: missing_def split: option.splits)
  with wf show ?thesis
    by (simp add: progress_markStepCompleted wf_assign_true)
qed

lemma wf_markStepIncomplete:
  "wf_props (progress w) \<Longrightarrow> wf_props (progress (snd (markStepIncomplete J stepId w)))"
proof (cases "missing stepId")
  case True
  assume "wf_props (progress w)"
  with True show ?thesis by (simp add: markStepIncomplete_def)
next
  case False
  assume wf: "wf_props (progress w)"
  from False obtain s where "stepId = Some s" and "s \<noteq> []"
    by (auto simp: missing_def split: option.splits)
  with wf show ?thesis
    by (simp add: progress_markStepIncomplete wf_delete_prop)
qed

lemma wf_resetProgress: "wf_props (progress (snd (resetProgress J w)))"
  by (simp add: resetProgress_eq wf_Nil split: sum.splits)

lemma wf_importProgress:
  "wf_props (progress w) \<Longrightarrow> wf_props (progress (snd (importProgress J data w)))"
proof (cases "truthy data \<and> typeof data = ''object''")
  case True
  then show ?thesis
    by (simp add: importProgress_eq wf_spread split: sum.splits)
next
  case False
  assume "wf_props (progress w)"
  with False show ?thesis
    by (auto simp: importProgress_def)
qed

text \<open>
  C10. The summary of a state whose progress object is well formed is consistent with it:
  the count is the number of truthy entries, the ids are the keys of the truthy entries,
  and the count is the length of the list of ids. Marking, unmarking, reset and import
  lead to a well-formed progress object again, so the summary is consistent after each of
  them, whatever the arguments and the outcome of the write.
\<close>

theorem summary_invariant:
  "wf_props (progress w) \<longrightarrow>
     summary_consistent (progress w) (getProgressSummary w) \<and>
     summary_consistent (progress (snd (markStepCompleted J stepId w)))
       (getProgressSummary (snd (markStepCompleted J stepId w))) \<and>
     summary_consistent (progress (snd (markStepIncomplete J stepId w)))
       (getProgressSummary (snd (markStepIncomplete J stepId w))) \<and>
     summary_consistent (progress (snd (resetProgress J w)))
       (getProgressSummary (snd (resetProgress J w))) \<and>
     summary_consistent (progress (snd (importProgress J data w)))
       (getProgressSummary (snd (importProgress J data w))) \<and>
     wf_props (progress (snd (markStepCompleted J stepId w))) \<and>
     wf_props (progress (snd (markStepIncomplete J stepId w))) \<and>
     wf_props (progress (snd (resetProgress J w))) \<and>
     wf_props (progress (snd (importProgress J data w)))"
  by (simp add: summary_consistent_wf wf_markStepCompleted wf_markStepIncomplete
      wf_resetProgress wf_importProgress)

theorem summary_invariant_witness:
  "wf_props [(''1'', JBool True), (''3'', JBool False), (''intro'', JStr ''done'')] \<and>
   getProgressSummary
     \<lparr>progress = [(''1'', JBool True), (''3'', JBool False), (''intro'', JStr ''done'')],
      storage = \<lparr>ls_items = [], ls_enabled = True, ls_quota = 100\<rparr>,
      nav_items = 5, querySelector = (\<lambda>selector. None), markers = [], bar = None, events = []\<rparr>
     = \<lparr>totalSteps = 5, completedSteps = 2, percentage = 40,
        completedStepIds = [''1'', ''intro'']\<rparr> \<and>
   summary_consistent [(''1'', JBool True), (''3'', JBool False), (''intro'', JStr ''done'')]
     \<lparr>totalSteps = 5, completedSteps = 2, percentage = 40,
      completedStepIds = [''1'', ''intro'']\<rparr>"
proof -
  let ?ps = "[(''1'', JBool True), (''3'', JBool False), (''intro'', JStr ''done'')]"
  let ?w = "\<lparr>progress = ?ps,
      storage = \<lparr>ls_items = [], ls_enabled = True, ls_quota = 100\<rparr>,
      nav_items = 5, querySelector = (\<lambda>selector. None), markers = [], bar = None, events = []\<rparr>"
  have wf: "wf_props ?ps"
    by code_simp
  then have wf': "wf_props (progress ?w)"
    by simp
  have summary: "getProgressSummary ?w
      = \<lparr>totalSteps = 5, completedSteps = 2, percentage = 40,
         completedStepIds = [''1'', ''intro'']\<rparr>"
    by code_simp
  from summary_invariant [of ?w "\<lambda>v. None" None JNull] wf'
  have "summary_consistent (progress ?w) (getProgressSummary ?w)"
    by blast
  with wf summary show ?thesis
    by simp
qed

section \<open>The percentage\<close>

subsection \<open>The binary exponent\<close>





subsection \<open>Rounding to a double\<close>










subsection \<open>The computed percentage\<close>














text \<open>
  The double rounding also shows inside the range: 23 completed steps of 40 give 57,
  where the exact value is 57.5 and its rounding 58.
\<close>

lemma percentage_tie_in_range:
  "math_round (js_mul (js_div 23 40) 100) = 57 \<and> spec_percentage 23 40 = 58"
  by code_simp

end
